theory Spec2Isabelle
  imports Main "HOL-Library.Monad_Syntax" "HOL-Library.Word"
begin

section \<open>JavaScript values\<close>

text \<open>
  The session code is dynamically typed: whatever the server sends ends up in the
  session fields. Values are the JSON values plus \<open>undefined\<close>. A string is a list of
  code units below 256 (Latin-1). A number is an integer from \<open>- 2 ^ 53\<close> to
  \<open>2 ^ 53 - 1\<close>, a signed word of 54 bits: these are numbers that a double holds
  exactly and that ToString prints with all their decimal digits. An object is an
  association list read with \<open>map_of\<close>.
\<close>

datatype jsval =
    Undefined
  | Null
  | JBool bool
  | JNum "54 word"
  | JStr string
  | JArr "jsval list"
  | JObj "(string \<times> jsval) list"

text \<open>\<open>v == null\<close>: the values on which a member access throws a TypeError.\<close>

fun nullish :: "jsval \<Rightarrow> bool" where
  "nullish Undefined = True"
| "nullish Null = True"
| "nullish v = False"

text \<open>A session field is set when it holds neither \<open>null\<close> nor \<open>undefined\<close>.\<close>

definition is_set :: "jsval \<Rightarrow> bool" where
  "is_set v = (\<not> nullish v)"

text \<open>ToBoolean, as used by \<open>if (v)\<close>, \<open>!v\<close> and \<open>a || b\<close>.\<close>

fun truthy :: "jsval \<Rightarrow> bool" where
  "truthy Undefined = False"
| "truthy Null = False"
| "truthy (JBool b) = b"
| "truthy (JNum n) = (n \<noteq> 0)"
| "truthy (JStr s) = (s \<noteq> [])"
| "truthy (JArr xs) = True"
| "truthy (JObj kvs) = True"

text \<open>\<open>a || b\<close>\<close>

definition js_or :: "jsval \<Rightarrow> jsval \<Rightarrow> jsval" where
  "js_or a b = (if truthy a then a else b)"

text \<open>
  \<open>v.k\<close> on a value that is not nullish, for the keys the modelled code reads
  (\<open>user\<close>, \<open>token\<close>, \<open>access_token\<close>, \<open>detail\<close>, \<open>email\<close>, \<open>password\<close>): none of them is
  a property of a primitive or of an array, so only objects answer.
\<close>

fun js_get :: "jsval \<Rightarrow> string \<Rightarrow> jsval" where
  "js_get (JObj kvs) k = (case map_of kvs k of Some v \<Rightarrow> v | None \<Rightarrow> Undefined)"
| "js_get v k = Undefined"

text \<open>\<open>v?.k\<close>\<close>

definition opt_get :: "jsval \<Rightarrow> string \<Rightarrow> jsval" where
  "opt_get v k = (if nullish v then Undefined else js_get v k)"

text \<open>Decimal digits of a natural number, for \<open>String(n)\<close>.\<close>

function decimal :: "nat \<Rightarrow> string" where
  "decimal n =
     (if n < 10 then [''0123456789'' ! n]
      else decimal (n div 10) @ [''0123456789'' ! (n mod 10)])"
  by pat_completeness auto
termination
  by (relation "measure id") auto

fun join_comma :: "string list \<Rightarrow> string" where
  "join_comma [] = []"
| "join_comma [x] = x"
| "join_comma (x # y # ys) = x @ '','' @ join_comma (y # ys)"

text \<open>
  ToString, applied by \<open>localStorage.setItem\<close> and by a template literal. A number
  of the range above prints as its decimal digits, after a minus sign when it is
  negative. An array joins its elements with commas, \<open>null\<close> and \<open>undefined\<close>
  elements printing as nothing.
\<close>

fun js_String :: "jsval \<Rightarrow> string" where
  "js_String Undefined = ''undefined''"
| "js_String Null = ''null''"
| "js_String (JBool b) = (if b then ''true'' else ''false'')"
| "js_String (JNum n) =
     (if sint n < 0 then ''-'' @ decimal (nat (- sint n)) else decimal (nat (sint n)))"
| "js_String (JStr s) = s"
| "js_String (JArr xs) = join_comma (map (\<lambda>x. if nullish x then [] else js_String x) xs)"
| "js_String (JObj kvs) = ''[object Object]''"

section \<open>The session state and its reducer (AuthContext.js)\<close>

record state =
  user :: jsval
  token :: jsval
  isAuthenticated :: bool
  loading :: jsval
  error :: jsval

definition initialState :: state where
  "initialState = \<lparr>user = Null, token = Null, isAuthenticated = False,
                    loading = JBool True, error = Null\<rparr>"

text \<open>An action is an object with a \<open>type\<close> and, for some types, a \<open>payload\<close>.\<close>

record action =
  atype :: jsval
  payload :: jsval

definition LOGIN_START :: jsval where "LOGIN_START = JStr ''LOGIN_START''"
definition LOGIN_SUCCESS :: jsval where "LOGIN_SUCCESS = JStr ''LOGIN_SUCCESS''"
definition LOGIN_FAILURE :: jsval where "LOGIN_FAILURE = JStr ''LOGIN_FAILURE''"
definition LOGOUT :: jsval where "LOGOUT = JStr ''LOGOUT''"
definition SET_LOADING :: jsval where "SET_LOADING = JStr ''SET_LOADING''"
definition CLEAR_ERROR :: jsval where "CLEAR_ERROR = JStr ''CLEAR_ERROR''"
definition UPDATE_USER :: jsval where "UPDATE_USER = JStr ''UPDATE_USER''"


text \<open>
  \<open>authReducer\<close>: the \<open>switch\<close> compares \<open>action.type\<close> with \<open>===\<close>, case by case in
  the order of the source. \<open>None\<close> is the TypeError of \<open>action.payload.user\<close> on a
  payload that is \<open>null\<close> or \<open>undefined\<close>.
\<close>

definition authReducer :: "state \<Rightarrow> action \<Rightarrow> state option" where
  "authReducer s a =
    (if atype a = LOGIN_START then
       Some (s\<lparr>loading := JBool True, error := Null\<rparr>)
     else if atype a = LOGIN_SUCCESS then
       (if nullish (payload a) then None
        else Some (s\<lparr>user := js_get (payload a) ''user'',
                     token := js_get (payload a) ''token'',
                     isAuthenticated := True,
                     loading := JBool False,
                     error := Null\<rparr>))
     else if atype a = LOGIN_FAILURE then
       Some (s\<lparr>user := Null, token := Null, isAuthenticated := False,
               loading := JBool False, error := payload a\<rparr>)
     else if atype a = LOGOUT then
       Some (s\<lparr>user := Null, token := Null, isAuthenticated := False,
               loading := JBool False, error := Null\<rparr>)
     else if atype a = SET_LOADING then
       Some (s\<lparr>loading := payload a\<rparr>)
     else if atype a = CLEAR_ERROR then
       Some (s\<lparr>error := Null\<rparr>)
     else if atype a = UPDATE_USER then
       Some (s\<lparr>user := payload a\<rparr>)
     else Some s)"

section \<open>Storage, request pipeline and network (api.js)\<close>

text \<open>
  A call to the server is logged with the \<open>Authorization\<close> header it carries. The
  server is outside the program: its answer to a call is an input of the model, either
  a response with its \<open>data\<close>, or an axios error, whose \<open>response\<close> is absent when
  nothing came back and holds the status and the data otherwise.
\<close>

record request =
  verb :: string
  url :: string
  body :: jsval
  authorization :: "string option"

datatype response =
    Resolved jsval
  | Rejected "(nat \<times> jsval) option"

text \<open>
  The state outside the reducer: the \<open>hospital_token\<close> key of \<open>localStorage\<close>, the
  default header \<open>authAPI.defaults.headers.common['Authorization']\<close>,
  \<open>window.location.pathname\<close>, the values assigned to \<open>window.location.href\<close>, and the
  log of the calls sent.
\<close>

record sys =
  st :: state
  hospital_token :: "string option"
  Authorization :: "string option"
  pathname :: string
  href :: "string list"
  requests :: "request list"

definition dispatch :: "action \<Rightarrow> sys \<Rightarrow> sys option" where
  "dispatch a s = map_option (\<lambda>x. s\<lparr>st := x\<rparr>) (authReducer (st s) a)"

text \<open>
  \<open>addAuthInterceptor\<close>: the header of the outgoing call is the stored token when there
  is one, and the default header otherwise.
\<close>

definition addAuthInterceptor :: "sys \<Rightarrow> string option" where
  "addAuthInterceptor s =
    (case hospital_token s of
       None \<Rightarrow> Authorization s
     | Some t \<Rightarrow> if t \<noteq> [] then Some (''Bearer '' @ t) else Authorization s)"

definition send :: "string \<Rightarrow> string \<Rightarrow> jsval \<Rightarrow> sys \<Rightarrow> sys" where
  "send v u b s =
    s\<lparr>requests := requests s @
         [\<lparr>verb = v, url = u, body = b, authorization = addAuthInterceptor s\<rparr>]\<rparr>"

text \<open>
  \<open>addResponseInterceptor\<close>: a response passes; an error with status 401 removes the
  stored token and, away from \<open>/login\<close>, assigns \<open>/login\<close> to \<open>window.location.href\<close>;
  the error is then rejected again, to the caller.
\<close>

definition addResponseInterceptor :: "response \<Rightarrow> sys \<Rightarrow> sys" where
  "addResponseInterceptor r s =
    (case r of
       Resolved d \<Rightarrow> s
     | Rejected None \<Rightarrow> s
     | Rejected (Some (status, d)) \<Rightarrow>
         if status = 401 then
           (let s1 = s\<lparr>hospital_token := None\<rparr>
            in if pathname s1 \<noteq> ''/login'' then s1\<lparr>href := href s1 @ [''/login'']\<rparr> else s1)
         else s)"

text \<open>\<open>error.response?.data?.detail\<close> of a caught error.\<close>

definition detail_of :: "(nat \<times> jsval) option \<Rightarrow> jsval" where
  "detail_of e = (case e of None \<Rightarrow> Undefined | Some (status, d) \<Rightarrow> opt_get d ''detail'')"

section \<open>The operations of the AuthProvider (AuthContext.js)\<close>

text \<open>
  An operation returns \<open>None\<close> when an exception escapes it. The return value of
  \<open>login\<close> and \<open>register\<close> is \<open>{success: true}\<close> or \<open>{success: false, error}\<close>.
  Each asynchronous operation is cut at its \<open>await\<close>: the part that sends the call, and
  the part that runs when the answer \<open>r\<close> arrives.
\<close>

datatype outcome = Success | Failure jsval

definition login_request :: "jsval \<Rightarrow> jsval \<Rightarrow> sys \<Rightarrow> sys option" where
  "login_request email password s =
    do { s1 \<leftarrow> dispatch \<lparr>atype = LOGIN_START, payload = Undefined\<rparr> s;
         Some (send ''POST'' ''/auth/login''
                 (JObj [(''email'', email), (''password'', password)]) s1) }"

definition login_catch :: "(nat \<times> jsval) option \<Rightarrow> sys \<Rightarrow> (outcome \<times> sys) option" where
  "login_catch e s =
    (let errorMessage = js_or (detail_of e) (JStr ''Erro ao fazer login'')
     in do { s1 \<leftarrow> dispatch \<lparr>atype = LOGIN_FAILURE, payload = errorMessage\<rparr> s;
             Some (Failure errorMessage, s1) })"

text \<open>
  Destructuring \<open>response.data\<close> throws a TypeError when it is nullish; the \<open>catch\<close>
  receives that error, which has no \<open>response\<close>.
\<close>

definition login_resolution :: "response \<Rightarrow> sys \<Rightarrow> (outcome \<times> sys) option" where
  "login_resolution r s =
    (let s1 = addResponseInterceptor r s
     in case r of
          Rejected e \<Rightarrow> login_catch e s1
        | Resolved d \<Rightarrow>
            if nullish d then login_catch None s1
            else
              (let access_token = js_get d ''access_token'';
                   u = js_get d ''user'';
                   s2 = s1\<lparr>hospital_token := Some (js_String access_token)\<rparr>;
                   s3 = s2\<lparr>Authorization := Some (''Bearer '' @ js_String access_token)\<rparr>
               in do { s4 \<leftarrow> dispatch \<lparr>atype = LOGIN_SUCCESS,
                                       payload = JObj [(''user'', u), (''token'', access_token)]\<rparr> s3;
                       Some (Success, s4) }))"

definition login :: "jsval \<Rightarrow> jsval \<Rightarrow> response \<Rightarrow> sys \<Rightarrow> (outcome \<times> sys) option" where
  "login email password r s = login_request email password s \<bind> login_resolution r"

definition register_request :: "jsval \<Rightarrow> sys \<Rightarrow> sys option" where
  "register_request userData s =
    do { s1 \<leftarrow> dispatch \<lparr>atype = LOGIN_START, payload = Undefined\<rparr> s;
         Some (send ''POST'' ''/auth/register'' userData s1) }"

definition register_catch :: "(nat \<times> jsval) option \<Rightarrow> sys \<Rightarrow> (outcome \<times> sys) option" where
  "register_catch e s =
    (let errorMessage = js_or (detail_of e) (JStr (''Erro ao cadastrar usu'' @ [CHR 0xE1] @ ''rio''))
     in do { s1 \<leftarrow> dispatch \<lparr>atype = LOGIN_FAILURE, payload = errorMessage\<rparr> s;
             Some (Failure errorMessage, s1) })"

text \<open>
  \<open>register\<close>, with \<open>r1\<close> the answer to the registration and \<open>r2\<close> the answer to the
  login that follows a successful one. \<open>userData.email\<close> throws inside the \<open>try\<close> when
  \<open>userData\<close> is nullish.
\<close>

definition register :: "jsval \<Rightarrow> response \<Rightarrow> response \<Rightarrow> sys \<Rightarrow> (outcome \<times> sys) option" where
  "register userData r1 r2 s =
    do { s1 \<leftarrow> register_request userData s;
         let s2 = addResponseInterceptor r1 s1;
         (case r1 of
            Rejected e \<Rightarrow> register_catch e s2
          | Resolved d \<Rightarrow>
              if nullish userData then register_catch None s2
              else do { (loginResult, s3) \<leftarrow>
                          login (js_get userData ''email'') (js_get userData ''password'') r2 s2;
                        (case loginResult of
                           Success \<Rightarrow> Some (Success, s3)
                         | Failure m \<Rightarrow>
                             Some (Failure (JStr (''Cadastro realizado, mas falha no login autom''
                                                  @ [CHR 0xE1] @ ''tico'')), s3)) }) }"

definition logout :: "sys \<Rightarrow> sys option" where
  "logout s =
    dispatch \<lparr>atype = LOGOUT, payload = Undefined\<rparr>
      (s\<lparr>hospital_token := None, Authorization := None\<rparr>)"

definition clearError :: "sys \<Rightarrow> sys option" where
  "clearError s = dispatch \<lparr>atype = CLEAR_ERROR, payload = Undefined\<rparr> s"

definition getCurrentUser_request :: "sys \<Rightarrow> sys option" where
  "getCurrentUser_request s = Some (send ''GET'' ''/auth/me'' Undefined s)"

definition getCurrentUser_resolution :: "response \<Rightarrow> sys \<Rightarrow> (jsval \<times> sys) option" where
  "getCurrentUser_resolution r s =
    (let s1 = addResponseInterceptor r s
     in case r of
          Rejected e \<Rightarrow> Some (Null, s1)
        | Resolved d \<Rightarrow>
            do { s2 \<leftarrow> dispatch \<lparr>atype = UPDATE_USER, payload = d\<rparr> s1;
                 Some (d, s2) })"

definition getCurrentUser :: "response \<Rightarrow> sys \<Rightarrow> (jsval \<times> sys) option" where
  "getCurrentUser r s = getCurrentUser_request s \<bind> getCurrentUser_resolution r"

text \<open>
  \<open>loadStoredAuth\<close>, the effect run when the provider mounts. With a truthy stored token
  it sets the default header and asks \<open>/auth/me\<close>; the continuation keeps the token it
  read in its closure.
\<close>

definition loadStoredAuth_request :: "sys \<Rightarrow> sys option" where
  "loadStoredAuth_request s =
    (case hospital_token s of
       None \<Rightarrow> dispatch \<lparr>atype = SET_LOADING, payload = JBool False\<rparr> s
     | Some t \<Rightarrow>
         if t \<noteq> [] then
           Some (send ''GET'' ''/auth/me'' Undefined (s\<lparr>Authorization := Some (''Bearer '' @ t)\<rparr>))
         else dispatch \<lparr>atype = SET_LOADING, payload = JBool False\<rparr> s)"

definition loadStoredAuth_resolution :: "string \<Rightarrow> response \<Rightarrow> sys \<Rightarrow> sys option" where
  "loadStoredAuth_resolution t r s =
    (let s1 = addResponseInterceptor r s
     in case r of
          Resolved d \<Rightarrow>
            dispatch \<lparr>atype = LOGIN_SUCCESS,
                      payload = JObj [(''user'', d), (''token'', JStr t)]\<rparr> s1
        | Rejected e \<Rightarrow>
            dispatch \<lparr>atype = SET_LOADING, payload = JBool False\<rparr>
              (s1\<lparr>hospital_token := None, Authorization := None\<rparr>))"

definition loadStoredAuth :: "response \<Rightarrow> sys \<Rightarrow> sys option" where
  "loadStoredAuth r s =
    (case hospital_token s of
       None \<Rightarrow> loadStoredAuth_request s
     | Some t \<Rightarrow>
         if t \<noteq> [] then loadStoredAuth_request s \<bind> loadStoredAuth_resolution t r
         else loadStoredAuth_request s)"

section \<open>The registration form (RegisterPage.js)\<close>

text \<open>
  White space, for \<open>String.prototype.trim\<close> and for the white-space class of a
  regular expression, among the code units below 256: tab, line feed, vertical tab, form
  feed, carriage return, space and the no-break space.
\<close>

definition js_space :: "char \<Rightarrow> bool" where
  "js_space c = (of_char c \<in> set [9, 10, 11, 12, 13, 32, 160 :: nat])"

definition trim :: "string \<Rightarrow> string" where
  "trim s = rev (dropWhile js_space (rev (dropWhile js_space s)))"

text \<open>
  The test of the email against the regular expression of \<open>validateForm\<close>, which is
  not anchored: somewhere in \<open>s\<close> a character that is not white space, an \<open>@\<close>, one
  or more characters that are not white space, a dot, and a character that is not white
  space.
\<close>

fun dot_tail :: "string \<Rightarrow> bool" where
  "dot_tail (d # e # r) = (d = CHR ''.'' \<and> \<not> js_space e)"
| "dot_tail r = False"

fun domain_part :: "string \<Rightarrow> bool" where
  "domain_part [] = False"
| "domain_part (c # r) = (\<not> js_space c \<and> (dot_tail r \<or> domain_part r))"

fun email_regex_test :: "string \<Rightarrow> bool" where
  "email_regex_test (a # b # r) =
     ((\<not> js_space a \<and> b = CHR ''@'' \<and> domain_part r) \<or> email_regex_test (b # r))"
| "email_regex_test r = False"

record formData =
  nome :: string
  email :: string
  password :: string
  confirm_password :: string
  role :: string
  crm :: string
  especialidade :: string

text \<open>
  The component's state. \<open>validationErrors\<close> lists the keys of the object in the order
  in which they were assigned.
\<close>

record page =
  formData :: formData
  isSubmitting :: bool
  validationErrors :: "(string \<times> string) list"

definition obrigatorio :: string where
  "obrigatorio = [CHR 0xE9] @ '' obrigat'' @ [CHR 0xF3] @ ''rio''"

definition obrigatoria :: string where
  "obrigatoria = [CHR 0xE9] @ '' obrigat'' @ [CHR 0xF3] @ ''ria''"

definition medicos :: string where
  "medicos = ''m'' @ [CHR 0xE9] @ ''dicos''"

text \<open>The object \<open>errors\<close> that \<open>validateForm\<close> builds, check by check.\<close>

definition form_errors :: "formData \<Rightarrow> (string \<times> string) list" where
  "form_errors f =
    (if trim (nome f) = [] then [(''nome'', ''Nome '' @ obrigatorio)] else [])
    @ (if trim (email f) = [] then [(''email'', ''Email '' @ obrigatorio)]
       else if \<not> email_regex_test (email f) then [(''email'', ''Email inv'' @ [CHR 0xE1] @ ''lido'')]
       else [])
    @ (if password f = [] then [(''password'', ''Senha '' @ obrigatoria)]
       else if length (password f) < 6 then
         [(''password'', ''Senha deve ter pelo menos 6 caracteres'')]
       else [])
    @ (if confirm_password f = [] then
         [(''confirm_password'',
           ''Confirma'' @ [CHR 0xE7, CHR 0xE3] @ ''o de senha '' @ obrigatoria)]
       else if password f \<noteq> confirm_password f then
         [(''confirm_password'', ''Senhas n'' @ [CHR 0xE3] @ ''o coincidem'')]
       else [])
    @ (if role f = ''doctor'' then
         (if trim (crm f) = [] then [(''crm'', ''CRM '' @ obrigatorio @ '' para '' @ medicos)]
          else [])
         @ (if trim (especialidade f) = [] then
              [(''especialidade'', ''Especialidade '' @ obrigatoria @ '' para '' @ medicos)]
            else [])
       else [])"

text \<open>
  \<open>validateForm\<close> stores the errors in the component and answers whether there are
  none.
\<close>

definition validateForm :: "page \<Rightarrow> bool \<times> page" where
  "validateForm p =
    (let errors = form_errors (formData p)
     in (errors = [], p\<lparr>validationErrors := errors\<rparr>))"

text \<open>The object handed to \<open>register\<close>: the form's fields, all strings.\<close>

definition formData_object :: "formData \<Rightarrow> jsval" where
  "formData_object f =
    JObj [(''nome'', JStr (nome f)), (''email'', JStr (email f)),
          (''password'', JStr (password f)),
          (''confirm_password'', JStr (confirm_password f)),
          (''role'', JStr (role f)), (''crm'', JStr (crm f)),
          (''especialidade'', JStr (especialidade f))]"

text \<open>
  \<open>handleSubmit\<close>: nothing happens while a submission is running; a form with errors
  stops after \<open>validateForm\<close>; otherwise \<open>register\<close> runs and \<open>isSubmitting\<close> is false
  again at the end.
\<close>

definition handleSubmit :: "response \<Rightarrow> response \<Rightarrow> page \<times> sys \<Rightarrow> (page \<times> sys) option" where
  "handleSubmit r1 r2 ps =
    (case ps of (p, s) \<Rightarrow>
       if isSubmitting p then Some (p, s)
       else
         (case validateForm p of (valid, p1) \<Rightarrow>
            if \<not> valid then Some (p1, s)
            else
              do { (result, s1) \<leftarrow>
                     register (formData_object (formData p1)) r1 r2
                       s;
                   Some (p1\<lparr>isSubmitting := False\<rparr>, s1) }))"

section \<open>Executions\<close>

text \<open>
  An execution is a sequence of events: the synchronous operations, and the two halves
  of each asynchronous one, so that other events may fall between a call and its
  answer. The answer to \<open>register\<close> starts the login that follows it.
\<close>

datatype event =
    RestoreCall
  | RestoreReply string response
  | LoginCall jsval jsval
  | LoginReply response
  | RegisterCall jsval
  | RegisterReply jsval response
  | LogoutCall
  | ClearErrorCall
  | RefreshUserCall
  | RefreshUserReply response

definition register_resolution :: "jsval \<Rightarrow> response \<Rightarrow> sys \<Rightarrow> sys option" where
  "register_resolution userData r1 s =
    (let s2 = addResponseInterceptor r1 s
     in case r1 of
          Rejected e \<Rightarrow> map_option snd (register_catch e s2)
        | Resolved d \<Rightarrow>
            if nullish userData then map_option snd (register_catch None s2)
            else login_request (js_get userData ''email'') (js_get userData ''password'') s2)"

fun step :: "event \<Rightarrow> sys \<Rightarrow> sys option" where
  "step RestoreCall s = loadStoredAuth_request s"
| "step (RestoreReply t r) s = loadStoredAuth_resolution t r s"
| "step (LoginCall e p) s = login_request e p s"
| "step (LoginReply r) s = map_option snd (login_resolution r s)"
| "step (RegisterCall u) s = register_request u s"
| "step (RegisterReply u r) s = register_resolution u r s"
| "step LogoutCall s = logout s"
| "step ClearErrorCall s = clearError s"
| "step RefreshUserCall s = getCurrentUser_request s"
| "step (RefreshUserReply r) s = map_option snd (getCurrentUser_resolution r s)"

fun run :: "event list \<Rightarrow> sys \<Rightarrow> sys option" where
  "run [] s = Some s"
| "run (e # es) s = step e s \<bind> run es"

text \<open>
  The process starts with the reducer's initial state, whatever \<open>localStorage\<close> holds
  and whatever page is shown, no default header and no call sent.
\<close>

definition start :: "string option \<Rightarrow> string \<Rightarrow> sys" where
  "start stored path =
    \<lparr>st = initialState, hospital_token = stored, Authorization = None,
     pathname = path, href = [], requests = []\<rparr>"

section \<open>Predicates of the claims\<close>

text \<open>
  The invariant as the specification words it: \<open>token\<close> is set iff \<open>user\<close> is set iff
  the session is authenticated.
\<close>

definition claimed_invariant :: "state \<Rightarrow> bool" where
  "claimed_invariant x =
     (is_set (token x) = is_set (user x) \<and> is_set (user x) = isAuthenticated x)"

text \<open>
  The invariant the reducer keeps: \<open>token\<close> is set iff the session is authenticated, and
  an authenticated session has a \<open>user\<close>.
\<close>

definition session_invariant :: "state \<Rightarrow> bool" where
  "session_invariant x =
     (is_set (token x) = isAuthenticated x \<and>
      (if isAuthenticated x then is_set (user x) else True))"

text \<open>
  What the server's contract promises of a successful answer: \<open>/auth/login\<close> gives an
  \<open>access_token\<close> and a \<open>user\<close>, \<open>/auth/me\<close> gives a user. The token that the
  continuation of \<open>loadStoredAuth\<close> holds was truthy when it was read.
\<close>

fun contract :: "event \<Rightarrow> bool" where
  "contract (RestoreReply t (Resolved d)) = (t \<noteq> [] \<and> is_set d)"
| "contract (LoginReply (Resolved d)) =
     (is_set (js_get d ''access_token'') \<and> is_set (js_get d ''user''))"
| "contract (RefreshUserReply (Resolved d)) = is_set d"
| "contract e = True"

section \<open>Printing values\<close>

lemma js_String_examples:
  "js_String (JNum 42) = ''42''"
  "js_String (JNum (- 1205)) = ''-1205''"
  "js_String (JNum 9007199254740991) = ''9007199254740991''"
  "js_String (JNum (- 9007199254740992)) = ''-9007199254740992''"
  "js_String (JArr [JNum 0, Null, JStr ''x'', JBool True, JArr [JNum 7]]) = ''0,,x,true,7''"
  "js_String (JObj [(''id'', JNum 1)]) = ''[object Object]''"
  by simp_all

section \<open>The reducer, action by action\<close>

lemmas action_defs = LOGIN_START_def LOGIN_SUCCESS_def LOGIN_FAILURE_def
  LOGOUT_def SET_LOADING_def CLEAR_ERROR_def UPDATE_USER_def

lemma reducer_LOGIN_START:
  "authReducer s \<lparr>atype = LOGIN_START, payload = p\<rparr> =
     Some (s\<lparr>loading := JBool True, error := Null\<rparr>)"
  by (simp add: authReducer_def)

lemma reducer_LOGIN_SUCCESS:
  "authReducer s \<lparr>atype = LOGIN_SUCCESS, payload = JObj kvs\<rparr> =
     Some (s\<lparr>user := js_get (JObj kvs) ''user'', token := js_get (JObj kvs) ''token'',
             isAuthenticated := True, loading := JBool False, error := Null\<rparr>)"
  by (simp add: authReducer_def action_defs)

lemma reducer_LOGIN_FAILURE:
  "authReducer s \<lparr>atype = LOGIN_FAILURE, payload = p\<rparr> =
     Some (s\<lparr>user := Null, token := Null, isAuthenticated := False,
             loading := JBool False, error := p\<rparr>)"
  by (simp add: authReducer_def action_defs)

lemma reducer_LOGOUT:
  "authReducer s \<lparr>atype = LOGOUT, payload = p\<rparr> =
     Some (s\<lparr>user := Null, token := Null, isAuthenticated := False,
             loading := JBool False, error := Null\<rparr>)"
  by (simp add: authReducer_def action_defs)

lemma reducer_SET_LOADING:
  "authReducer s \<lparr>atype = SET_LOADING, payload = p\<rparr> = Some (s\<lparr>loading := p\<rparr>)"
  by (simp add: authReducer_def action_defs)

lemma reducer_CLEAR_ERROR:
  "authReducer s \<lparr>atype = CLEAR_ERROR, payload = p\<rparr> = Some (s\<lparr>error := Null\<rparr>)"
  by (simp add: authReducer_def action_defs)

lemma reducer_UPDATE_USER:
  "authReducer s \<lparr>atype = UPDATE_USER, payload = p\<rparr> = Some (s\<lparr>user := p\<rparr>)"
  by (simp add: authReducer_def action_defs)

lemmas reducer_simps = reducer_LOGIN_START reducer_LOGIN_SUCCESS reducer_LOGIN_FAILURE
  reducer_LOGOUT reducer_SET_LOADING reducer_CLEAR_ERROR reducer_UPDATE_USER

lemmas op_defs = login_request_def login_resolution_def login_catch_def
  register_request_def register_resolution_def register_catch_def logout_def clearError_def
  getCurrentUser_request_def getCurrentUser_resolution_def
  loadStoredAuth_request_def loadStoredAuth_resolution_def
  dispatch_def send_def

lemma st_addResponseInterceptor [simp]: "st (addResponseInterceptor r s) = st s"
  by (auto simp add: addResponseInterceptor_def Let_def split: response.splits option.splits)

lemma js_get_nullish: "nullish d \<Longrightarrow> js_get d k = Undefined"
  by (cases d) simp_all

section \<open>Operations as executions\<close>

text \<open>
  Each asynchronous operation, run to its end, is the execution of its two halves one
  after the other.
\<close>

lemma run_Nil_Some [simp]: "run [] = Some"
  by (rule ext) simp

lemma login_as_events:
  "map_option snd (login em pw r s) = run [LoginCall em pw, LoginReply r] s"
  by (simp add: login_def login_request_def dispatch_def reducer_simps)

lemma getCurrentUser_as_events:
  "map_option snd (getCurrentUser r s) = run [RefreshUserCall, RefreshUserReply r] s"
  by (simp add: getCurrentUser_def getCurrentUser_request_def)

lemma loadStoredAuth_as_events:
  "loadStoredAuth r s =
     run (RestoreCall #
          (case hospital_token s of
             None \<Rightarrow> []
           | Some t \<Rightarrow> if t \<noteq> [] then [RestoreReply t r] else [])) s"
  by (simp add: loadStoredAuth_def loadStoredAuth_request_def dispatch_def reducer_simps
      split: option.splits)

lemma register_as_events:
  "map_option snd (register u r1 r2 s) =
     run ([RegisterCall u, RegisterReply u r1] @
          (case r1 of
             Rejected e \<Rightarrow> []
           | Resolved d \<Rightarrow> if nullish u then [] else [LoginReply r2])) s"
proof (cases r1)
  case (Rejected e)
  then show ?thesis
    by (simp add: register_def register_request_def register_resolution_def
        dispatch_def reducer_simps)
next
  case (Resolved d)
  show ?thesis
  proof (cases "nullish u")
    case True
    with Resolved show ?thesis
      by (simp add: register_def register_request_def register_resolution_def
          dispatch_def reducer_simps)
  next
    case False
    have "map_option snd
            (login em pw r2 x \<bind>
             (\<lambda>(loginResult, s3).
                case loginResult of
                  Success \<Rightarrow> Some (Success, s3)
                | Failure m \<Rightarrow> Some (Failure c, s3))) =
          map_option snd (login em pw r2 x)" for em pw x c
      by (cases "login em pw r2 x") (auto split: outcome.splits)
    with Resolved False show ?thesis
      by (simp add: register_def register_request_def register_resolution_def
          dispatch_def reducer_simps login_as_events)
  qed
qed

section \<open>The reducer and logout\<close>




text \<open>
  C8. \<open>logout\<close> always succeeds: it removes the stored token and the default header,
  clears \<open>user\<close>, \<open>token\<close> and \<open>error\<close>, and sends nothing. A second \<open>logout\<close> right
  after the first changes nothing more: state, storage and header are those left by one.
\<close>

theorem logout_idempotent:
  "logout s =
     Some (s\<lparr>st := (st s)\<lparr>user := Null, token := Null, isAuthenticated := False,
                         loading := JBool False, error := Null\<rparr>,
             hospital_token := None, Authorization := None\<rparr>) \<and>
   (logout s \<bind> logout) = logout s"
  by (simp add: logout_def dispatch_def reducer_simps)

section \<open>Login\<close>

text \<open>
  C7. When the server accepts the credentials and answers with an \<open>access_token\<close>
  string \<open>t\<close> and a \<open>user\<close>, \<open>login\<close> stores \<open>t\<close> in \<open>localStorage\<close>, sets the default
  header to \<open>Bearer t\<close>, makes the session authenticated with that user and token and no
  error, and returns success; the one call sent is the \<open>POST\<close> of the credentials.
\<close>

theorem login_success:
  assumes "map_of kvs ''access_token'' = Some (JStr t)" and "map_of kvs ''user'' = Some u"
  shows "login em pw (Resolved (JObj kvs)) s =
     Some (Success,
       s\<lparr>st := (st s)\<lparr>user := u, token := JStr t, isAuthenticated := True,
                        loading := JBool False, error := Null\<rparr>,
          hospital_token := Some t,
          Authorization := Some (''Bearer '' @ t),
          requests := requests s @
            [\<lparr>verb = ''POST'', url = ''/auth/login'',
              body = JObj [(''email'', em), (''password'', pw)],
              authorization = addAuthInterceptor s\<rparr>]\<rparr>)"
  using assms
  by (simp add: login_def op_defs reducer_simps addResponseInterceptor_def
      addAuthInterceptor_def split: option.splits)

theorem login_success_witness:
  "map_of [(''access_token'', JStr ''abc''), (''user'', JObj [(''nome'', JStr ''Ana'')])]
     ''access_token'' = Some (JStr ''abc'') \<and>
   map_of [(''access_token'', JStr ''abc''), (''user'', JObj [(''nome'', JStr ''Ana'')])]
     ''user'' = Some (JObj [(''nome'', JStr ''Ana'')]) \<and>
   login (JStr ''a@h.com'') (JStr ''secret123'')
     (Resolved (JObj [(''access_token'', JStr ''abc''),
                      (''user'', JObj [(''nome'', JStr ''Ana'')])]))
     (start None ''/login'') =
   Some (Success,
     \<lparr>st = \<lparr>user = JObj [(''nome'', JStr ''Ana'')], token = JStr ''abc'',
              isAuthenticated = True, loading = JBool False, error = Null\<rparr>,
      hospital_token = Some ''abc'', Authorization = Some ''Bearer abc'',
      pathname = ''/login'', href = [],
      requests = [\<lparr>verb = ''POST'', url = ''/auth/login'',
                    body = JObj [(''email'', JStr ''a@h.com''),
                                 (''password'', JStr ''secret123'')],
                    authorization = None\<rparr>]\<rparr>)"
  using login_success
          [of "[(''access_token'', JStr ''abc''), (''user'', JObj [(''nome'', JStr ''Ana'')])]"
              "''abc''" "JObj [(''nome'', JStr ''Ana'')]"
              "JStr ''a@h.com''" "JStr ''secret123''" "start None ''/login''"]
  by (simp add: start_def initialState_def addAuthInterceptor_def)

lemma error_message_no_response: "js_or (detail_of None) (JStr fb) = JStr fb"
  by (simp add: detail_of_def js_or_def)

lemma error_message_detail:
  "map_of kvs ''detail'' = Some v \<Longrightarrow>
   js_or (detail_of (Some (status, JObj kvs))) (JStr fb) = (if truthy v then v else JStr fb)"
  by (simp add: detail_of_def js_or_def opt_get_def)

lemma error_message_no_detail:
  "map_of kvs ''detail'' = None \<Longrightarrow>
   js_or (detail_of (Some (status, JObj kvs))) (JStr fb) = JStr fb"
  by (simp add: detail_of_def js_or_def opt_get_def)

lemma error_message_no_object:
  "\<forall>kvs. d \<noteq> JObj kvs \<Longrightarrow> js_or (detail_of (Some (status, d))) (JStr fb) = JStr fb"
  by (cases d) (simp_all add: detail_of_def js_or_def opt_get_def)

lemma error_message_truthy: "fb \<noteq> [] \<Longrightarrow> truthy (js_or x (JStr fb))"
  by (simp add: js_or_def)

lemma login_rejected:
  "login em pw (Rejected e) s =
     Some (Failure (js_or (detail_of e) (JStr ''Erro ao fazer login'')),
           (addResponseInterceptor (Rejected e)
              (send ''POST'' ''/auth/login'' (JObj [(''email'', em), (''password'', pw)])
                 (s\<lparr>st := (st s)\<lparr>loading := JBool True, error := Null\<rparr>\<rparr>)))
           \<lparr>st := (st s)\<lparr>user := Null, token := Null, isAuthenticated := False,
                          loading := JBool False,
                          error := js_or (detail_of e) (JStr ''Erro ao fazer login'')\<rparr>\<rparr>)"
  by (simp add: login_def login_request_def login_resolution_def login_catch_def dispatch_def
      reducer_simps Let_def send_def)

text \<open>
  C6. When the call of \<open>login\<close> fails, the session becomes unauthenticated, without
  user or token, its \<open>error\<close> is a message \<open>m\<close>, and \<open>login\<close> returns a failure that
  carries the same \<open>m\<close>. The message is never empty. It is the fallback
  \<open>Erro ao fazer login\<close> when no response came back, when the data of the response is
  no object, and when the data has no \<open>detail\<close> or a falsy one; it is the \<open>detail\<close> of
  the data otherwise, so a \<open>detail\<close> that is a string and not empty is the message.
\<close>

theorem login_failure:
  "\<exists>m s'. login em pw (Rejected e) s = Some (Failure m, s') \<and>
     st s' = (st s)\<lparr>user := Null, token := Null, isAuthenticated := False,
                    loading := JBool False, error := m\<rparr> \<and>
     truthy m \<and>
     (e = None \<longrightarrow> m = JStr ''Erro ao fazer login'') \<and>
     (\<forall>status kvs t. e = Some (status, JObj kvs) \<and> map_of kvs ''detail'' = Some (JStr t) \<and>
        t \<noteq> [] \<longrightarrow> m = JStr t) \<and>
     (\<forall>status kvs v. e = Some (status, JObj kvs) \<and> map_of kvs ''detail'' = Some v \<longrightarrow>
        m = (if truthy v then v else JStr ''Erro ao fazer login'')) \<and>
     (\<forall>status kvs. e = Some (status, JObj kvs) \<and> map_of kvs ''detail'' = None \<longrightarrow>
        m = JStr ''Erro ao fazer login'') \<and>
     (\<forall>status d. e = Some (status, d) \<and> (\<forall>kvs. d \<noteq> JObj kvs) \<longrightarrow>
        m = JStr ''Erro ao fazer login'')"
proof -
  let ?m = "js_or (detail_of e) (JStr ''Erro ao fazer login'')"
  obtain s' where l: "login em pw (Rejected e) s = Some (Failure ?m, s')"
    and st: "st s' = (st s)\<lparr>user := Null, token := Null, isAuthenticated := False,
                            loading := JBool False, error := ?m\<rparr>"
    by (simp add: login_rejected)
  have "truthy ?m"
    by (rule error_message_truthy) simp
  moreover have "e = None \<longrightarrow> ?m = JStr ''Erro ao fazer login''"
    by (simp add: error_message_no_response)
  moreover have "\<forall>status kvs v. e = Some (status, JObj kvs) \<and> map_of kvs ''detail'' = Some v \<longrightarrow>
        ?m = (if truthy v then v else JStr ''Erro ao fazer login'')"
    by (auto simp add: error_message_detail)
  moreover have "\<forall>status kvs t. e = Some (status, JObj kvs) \<and>
        map_of kvs ''detail'' = Some (JStr t) \<and> t \<noteq> [] \<longrightarrow> ?m = JStr t"
    by (auto simp add: error_message_detail)
  moreover have "\<forall>status kvs. e = Some (status, JObj kvs) \<and> map_of kvs ''detail'' = None \<longrightarrow>
        ?m = JStr ''Erro ao fazer login''"
    by (auto simp add: error_message_no_detail)
  moreover have "\<forall>status d. e = Some (status, d) \<and> (\<forall>kvs. d \<noteq> JObj kvs) \<longrightarrow>
        ?m = JStr ''Erro ao fazer login''"
    by (auto intro: error_message_no_object)
  ultimately show ?thesis
    using l st by blast
qed

theorem login_failure_witness:
  "login (JStr ''a@h.com'') (JStr ''wrong'')
     (Rejected (Some (401, JObj [(''detail'', JStr ''Invalid credentials'')])))
     (start None ''/login'') =
   Some (Failure (JStr ''Invalid credentials''),
     \<lparr>st = \<lparr>user = Null, token = Null, isAuthenticated = False, loading = JBool False,
              error = JStr ''Invalid credentials''\<rparr>,
      hospital_token = None, Authorization = None, pathname = ''/login'', href = [],
      requests = [\<lparr>verb = ''POST'', url = ''/auth/login'',
                    body = JObj [(''email'', JStr ''a@h.com''), (''password'', JStr ''wrong'')],
                    authorization = None\<rparr>]\<rparr>) \<and>
   login (JStr ''a@h.com'') (JStr ''secret123'') (Rejected None) (start None ''/login'') =
   Some (Failure (JStr ''Erro ao fazer login''),
     \<lparr>st = \<lparr>user = Null, token = Null, isAuthenticated = False, loading = JBool False,
              error = JStr ''Erro ao fazer login''\<rparr>,
      hospital_token = None, Authorization = None, pathname = ''/login'', href = [],
      requests = [\<lparr>verb = ''POST'', url = ''/auth/login'',
                    body = JObj [(''email'', JStr ''a@h.com''),
                                 (''password'', JStr ''secret123'')],
                    authorization = None\<rparr>]\<rparr>) \<and>
   login (JStr ''a@h.com'') (JStr ''secret123'') (Rejected (Some (500, JObj [])))
     (start None ''/login'') =
   Some (Failure (JStr ''Erro ao fazer login''),
     \<lparr>st = \<lparr>user = Null, token = Null, isAuthenticated = False, loading = JBool False,
              error = JStr ''Erro ao fazer login''\<rparr>,
      hospital_token = None, Authorization = None, pathname = ''/login'', href = [],
      requests = [\<lparr>verb = ''POST'', url = ''/auth/login'',
                    body = JObj [(''email'', JStr ''a@h.com''),
                                 (''password'', JStr ''secret123'')],
                    authorization = None\<rparr>]\<rparr>)"
  using login_failure [of "JStr ''a@h.com''" "JStr ''wrong''"
          "Some (401, JObj [(''detail'', JStr ''Invalid credentials'')])" "start None ''/login''"]
        login_failure [of "JStr ''a@h.com''" "JStr ''secret123''" None "start None ''/login''"]
        login_failure [of "JStr ''a@h.com''" "JStr ''secret123''" "Some (500, JObj [])"
          "start None ''/login''"]
  by (simp add: login_rejected start_def initialState_def send_def addAuthInterceptor_def
      addResponseInterceptor_def detail_of_def js_or_def opt_get_def)

section \<open>Restoring the session\<close>

text \<open>
  C5. \<open>loadStoredAuth\<close> runs when the provider mounts, on the initial state. When it
  finds a stored token and the call to \<open>/auth/me\<close> fails, whatever the error, it
  returns, the stored token and the default header are removed, and the session is
  unauthenticated, without user, token or error, and no longer loading.
\<close>

theorem restore_failure:
  assumes "hospital_token s = Some t" and "t \<noteq> []" and "st s = initialState"
  shows "\<exists>s'. loadStoredAuth (Rejected e) s = Some s' \<and>
           hospital_token s' = None \<and> Authorization s' = None \<and>
           st s' = \<lparr>user = Null, token = Null, isAuthenticated = False,
                    loading = JBool False, error = Null\<rparr>"
  using assms
  by (cases e)
     (auto simp add: loadStoredAuth_def op_defs reducer_simps addResponseInterceptor_def
        initialState_def Let_def)

theorem restore_failure_witness:
  "hospital_token (start (Some ''abc'') ''/dashboard'') = Some ''abc'' \<and> ''abc'' \<noteq> [] \<and>
   st (start (Some ''abc'') ''/dashboard'') = initialState \<and>
   loadStoredAuth (Rejected (Some (401, JObj [(''detail'', JStr ''Token expired'')])))
       (start (Some ''abc'') ''/dashboard'') =
     Some \<lparr>st = \<lparr>user = Null, token = Null, isAuthenticated = False,
                  loading = JBool False, error = Null\<rparr>,
           hospital_token = None, Authorization = None, pathname = ''/dashboard'',
           href = [''/login''],
           requests = [\<lparr>verb = ''GET'', url = ''/auth/me'', body = Undefined,
                         authorization = Some ''Bearer abc''\<rparr>]\<rparr>"
  using restore_failure [of "start (Some ''abc'') ''/dashboard''" "''abc''"
      "Some (401, JObj [(''detail'', JStr ''Token expired'')])"]
  by (simp add: start_def loadStoredAuth_def op_defs reducer_simps
       addResponseInterceptor_def addAuthInterceptor_def initialState_def)

section \<open>The reject step of the request pipeline\<close>

lemma reject_step_keeps_header:
  "Authorization (addResponseInterceptor r s) = Authorization s"
  by (auto simp add: addResponseInterceptor_def Let_def split: response.splits option.splits)

lemma other_responses_pass:
  "status \<noteq> 401 \<Longrightarrow> addResponseInterceptor (Rejected (Some (status, d))) s = s"
  "addResponseInterceptor (Rejected None) s = s"
  "addResponseInterceptor (Resolved d) s = s"
  by (simp_all add: addResponseInterceptor_def)

text \<open>
  C3, as the code has it. On a response with status 401 the interceptor removes the
  stored token and, unless the page is already \<open>/login\<close>, assigns \<open>/login\<close> to
  \<open>window.location.href\<close>. It dispatches nothing: the session state, its \<open>error\<close>
  included, is unchanged.
\<close>

theorem reject_step:
  "hospital_token (addResponseInterceptor (Rejected (Some (401, d))) s) = None \<and>
   href (addResponseInterceptor (Rejected (Some (401, d))) s) =
     (if pathname s = ''/login'' then href s else href s @ [''/login'']) \<and>
   st (addResponseInterceptor (Rejected (Some (401, d))) s) = st s"
  by (simp add: addResponseInterceptor_def Let_def)

text \<open>
  C3 as the specification states it fails. A session is restored on \<open>/login\<close> from the
  stored token \<open>abc\<close>; a later call to \<open>/auth/me\<close> is answered 401. The stored token
  is removed, and the page being \<open>/login\<close> nothing is assigned to
  \<open>window.location.href\<close>, so the page stays: the session is still authenticated and
  the header \<open>Bearer abc\<close> is still attached.
\<close>

theorem reject_step_counterexample:
  "run [RestoreCall,
        RestoreReply ''abc'' (Resolved (JObj [(''nome'', JStr ''Ana'')])),
        RefreshUserCall,
        RefreshUserReply (Rejected (Some (401, JObj [(''detail'', JStr ''Token expired'')])))]
       (start (Some ''abc'') ''/login'') =
   Some \<lparr>st = \<lparr>user = JObj [(''nome'', JStr ''Ana'')], token = JStr ''abc'',
                isAuthenticated = True, loading = JBool False, error = Null\<rparr>,
         hospital_token = None, Authorization = Some ''Bearer abc'',
         pathname = ''/login'', href = [],
         requests = [\<lparr>verb = ''GET'', url = ''/auth/me'', body = Undefined,
                       authorization = Some ''Bearer abc''\<rparr>,
                     \<lparr>verb = ''GET'', url = ''/auth/me'', body = Undefined,
                       authorization = Some ''Bearer abc''\<rparr>]\<rparr>"
  by (simp add: start_def initialState_def op_defs reducer_simps
      addResponseInterceptor_def addAuthInterceptor_def)

section \<open>A logout while a login is in flight\<close>

text \<open>
  C2, as the code has it. A \<open>logout\<close> issued while a login is in flight leaves the
  session unauthenticated, with the stored token and the header removed, but the answer
  to the login is not discarded: there is no generation counter. A rejected login then
  leaves the session unauthenticated with \<open>error\<close> set to the message of the failure
  (the fallback when no response came back, the \<open>detail\<close> string of the response when
  it has one). A successful login makes the session authenticated again, whatever data
  that is not nullish it brings; with an \<open>access_token\<close> string and a \<open>user\<close> it
  stores that token again and attaches it again.
\<close>

theorem stale_login_resolution_applied:
  "run [LoginCall em pw, LogoutCall] s =
     Some (s\<lparr>st := (st s)\<lparr>user := Null, token := Null, isAuthenticated := False,
                         loading := JBool False, error := Null\<rparr>,
             hospital_token := None, Authorization := None,
             requests := requests s @
               [\<lparr>verb = ''POST'', url = ''/auth/login'',
                 body = JObj [(''email'', em), (''password'', pw)],
                 authorization = addAuthInterceptor s\<rparr>]\<rparr>) \<and>
   (\<exists>m s'. run [LoginCall em pw, LogoutCall, LoginReply (Rejected e)] s = Some s' \<and>
      st s' = (st s)\<lparr>user := Null, token := Null, isAuthenticated := False,
                     loading := JBool False, error := m\<rparr> \<and>
      hospital_token s' = None \<and> Authorization s' = None \<and>
      is_set m \<and>
      (e = None \<longrightarrow> m = JStr ''Erro ao fazer login'') \<and>
      (\<forall>status kvs t. e = Some (status, JObj kvs) \<and> map_of kvs ''detail'' = Some (JStr t) \<and>
         t \<noteq> [] \<longrightarrow> m = JStr t)) \<and>
   map_option (isAuthenticated \<circ> st)
     (run [LoginCall em pw, LogoutCall, LoginReply (Resolved d)] s) = Some (\<not> nullish d) \<and>
   (map_of kvs ''access_token'' = Some (JStr t) \<and> map_of kvs ''user'' = Some u \<longrightarrow>
      run [LoginCall em pw, LogoutCall, LoginReply (Resolved (JObj kvs))] s =
        Some (s\<lparr>st := (st s)\<lparr>user := u, token := JStr t, isAuthenticated := True,
                            loading := JBool False, error := Null\<rparr>,
                hospital_token := Some t, Authorization := Some (''Bearer '' @ t),
                requests := requests s @
                  [\<lparr>verb = ''POST'', url = ''/auth/login'',
                    body = JObj [(''email'', em), (''password'', pw)],
                    authorization = addAuthInterceptor s\<rparr>]\<rparr>))"
proof -
  let ?m = "js_or (detail_of e) (JStr ''Erro ao fazer login'')"
  have logged_out: "run [LoginCall em pw, LogoutCall] s =
     Some (s\<lparr>st := (st s)\<lparr>user := Null, token := Null, isAuthenticated := False,
                         loading := JBool False, error := Null\<rparr>,
             hospital_token := None, Authorization := None,
             requests := requests s @
               [\<lparr>verb = ''POST'', url = ''/auth/login'',
                 body = JObj [(''email'', em), (''password'', pw)],
                 authorization = addAuthInterceptor s\<rparr>]\<rparr>)"
    by (simp add: op_defs reducer_simps addAuthInterceptor_def split: option.splits)
  obtain s' where rejected:
      "run [LoginCall em pw, LogoutCall, LoginReply (Rejected e)] s = Some s'"
      "st s' = (st s)\<lparr>user := Null, token := Null, isAuthenticated := False,
                       loading := JBool False, error := ?m\<rparr>"
      "hospital_token s' = None" "Authorization s' = None"
    by (cases e)
       (auto simp add: op_defs reducer_simps Let_def addResponseInterceptor_def)
  have set: "is_set ?m"
    using error_message_truthy [of "''Erro ao fazer login''" "detail_of e"]
    by (cases ?m) (simp_all add: is_set_def)
  have none: "e = None \<longrightarrow> ?m = JStr ''Erro ao fazer login''"
    by (simp add: error_message_no_response)
  have detail: "\<forall>status kvs t. e = Some (status, JObj kvs) \<and>
        map_of kvs ''detail'' = Some (JStr t) \<and> t \<noteq> [] \<longrightarrow> ?m = JStr t"
    by (auto simp add: error_message_detail)
  have resolved: "map_option (isAuthenticated \<circ> st)
     (run [LoginCall em pw, LogoutCall, LoginReply (Resolved d)] s) = Some (\<not> nullish d)"
    by (simp add: op_defs reducer_simps Let_def)
  have stored: "map_of kvs ''access_token'' = Some (JStr t) \<and> map_of kvs ''user'' = Some u \<longrightarrow>
      run [LoginCall em pw, LogoutCall, LoginReply (Resolved (JObj kvs))] s =
        Some (s\<lparr>st := (st s)\<lparr>user := u, token := JStr t, isAuthenticated := True,
                            loading := JBool False, error := Null\<rparr>,
                hospital_token := Some t, Authorization := Some (''Bearer '' @ t),
                requests := requests s @
                  [\<lparr>verb = ''POST'', url = ''/auth/login'',
                    body = JObj [(''email'', em), (''password'', pw)],
                    authorization = addAuthInterceptor s\<rparr>]\<rparr>)"
    by (simp add: op_defs reducer_simps addResponseInterceptor_def addAuthInterceptor_def
        split: option.splits)
  from rejected set none detail
  have "\<exists>m s'. run [LoginCall em pw, LogoutCall, LoginReply (Rejected e)] s = Some s' \<and>
      st s' = (st s)\<lparr>user := Null, token := Null, isAuthenticated := False,
                     loading := JBool False, error := m\<rparr> \<and>
      hospital_token s' = None \<and> Authorization s' = None \<and>
      is_set m \<and>
      (e = None \<longrightarrow> m = JStr ''Erro ao fazer login'') \<and>
      (\<forall>status kvs t. e = Some (status, JObj kvs) \<and> map_of kvs ''detail'' = Some (JStr t) \<and>
         t \<noteq> [] \<longrightarrow> m = JStr t)"
    by blast
  with logged_out resolved stored show ?thesis
    by blast
qed

theorem stale_login_resolution_applied_witness:
  "map_of [(''access_token'', JStr ''xyz''), (''user'', JObj [(''nome'', JStr ''Rui'')])]
     ''access_token'' = Some (JStr ''xyz'') \<and>
   map_of [(''access_token'', JStr ''xyz''), (''user'', JObj [(''nome'', JStr ''Rui'')])]
     ''user'' = Some (JObj [(''nome'', JStr ''Rui'')]) \<and>
   run [LoginCall (JStr ''r@h.com'') (JStr ''secret123''), LogoutCall,
        LoginReply (Resolved (JObj [(''access_token'', JStr ''xyz''),
                                    (''user'', JObj [(''nome'', JStr ''Rui'')])]))]
       (start None ''/login'') =
   Some \<lparr>st = \<lparr>user = JObj [(''nome'', JStr ''Rui'')], token = JStr ''xyz'',
                isAuthenticated = True, loading = JBool False, error = Null\<rparr>,
         hospital_token = Some ''xyz'', Authorization = Some ''Bearer xyz'',
         pathname = ''/login'', href = [],
         requests = [\<lparr>verb = ''POST'', url = ''/auth/login'',
                       body = JObj [(''email'', JStr ''r@h.com''),
                                    (''password'', JStr ''secret123'')],
                       authorization = None\<rparr>]\<rparr> \<and>
   run [LoginCall (JStr ''r@h.com'') (JStr ''wrong''), LogoutCall,
        LoginReply (Rejected (Some (401, JObj [(''detail'', JStr ''Invalid credentials'')])))]
       (start None ''/login'') =
   Some \<lparr>st = \<lparr>user = Null, token = Null, isAuthenticated = False,
                loading = JBool False, error = JStr ''Invalid credentials''\<rparr>,
         hospital_token = None, Authorization = None,
         pathname = ''/login'', href = [],
         requests = [\<lparr>verb = ''POST'', url = ''/auth/login'',
                       body = JObj [(''email'', JStr ''r@h.com''), (''password'', JStr ''wrong'')],
                       authorization = None\<rparr>]\<rparr> \<and>
   run [LoginCall (JStr ''r@h.com'') (JStr ''secret123''), LogoutCall, LoginReply (Rejected None)]
       (start None ''/login'') =
   Some \<lparr>st = \<lparr>user = Null, token = Null, isAuthenticated = False,
                loading = JBool False, error = JStr ''Erro ao fazer login''\<rparr>,
         hospital_token = None, Authorization = None,
         pathname = ''/login'', href = [],
         requests = [\<lparr>verb = ''POST'', url = ''/auth/login'',
                       body = JObj [(''email'', JStr ''r@h.com''),
                                    (''password'', JStr ''secret123'')],
                       authorization = None\<rparr>]\<rparr>"
  using stale_login_resolution_applied
          [where em = "JStr ''r@h.com''" and pw = "JStr ''secret123''"
             and s = "start None ''/login''" and e = None
             and kvs = "[(''access_token'', JStr ''xyz''),
                         (''user'', JObj [(''nome'', JStr ''Rui'')])]"
             and t = "''xyz''" and u = "JObj [(''nome'', JStr ''Rui'')]"]
        stale_login_resolution_applied
          [where em = "JStr ''r@h.com''" and pw = "JStr ''wrong''"
             and s = "start None ''/login''"
             and e = "Some (401, JObj [(''detail'', JStr ''Invalid credentials'')])"]
  by (simp add: start_def initialState_def op_defs reducer_simps addResponseInterceptor_def
      addAuthInterceptor_def detail_of_def js_or_def opt_get_def Let_def)

text \<open>
  C2 as the specification states it fails: \<open>login\<close> is issued, \<open>logout\<close> follows before
  the answer, and the answer, a success, leaves the session authenticated.
\<close>

theorem stale_login_counterexample:
  "run [LoginCall (JStr ''a@h.com'') (JStr ''secret123''),
        LogoutCall,
        LoginReply (Resolved (JObj [(''access_token'', JStr ''abc''),
                                    (''user'', JObj [(''nome'', JStr ''Ana'')])]))]
       (start None ''/login'') =
   Some \<lparr>st = \<lparr>user = JObj [(''nome'', JStr ''Ana'')], token = JStr ''abc'',
                isAuthenticated = True, loading = JBool False, error = Null\<rparr>,
         hospital_token = Some ''abc'', Authorization = Some ''Bearer abc'',
         pathname = ''/login'', href = [],
         requests = [\<lparr>verb = ''POST'', url = ''/auth/login'',
                       body = JObj [(''email'', JStr ''a@h.com''),
                                    (''password'', JStr ''secret123'')],
                       authorization = None\<rparr>]\<rparr>"
  by (simp add: start_def initialState_def op_defs reducer_simps
      addResponseInterceptor_def addAuthInterceptor_def)

section \<open>The invariant of the session\<close>

lemma step_invariant:
  assumes "contract e" and "session_invariant (st s)"
  shows "\<exists>s'. step e s = Some s' \<and> session_invariant (st s')"
proof (cases e)
  case (LoginReply r)
  show ?thesis
  proof (cases r)
    case (Resolved d)
    with assms LoginReply have "\<not> nullish d"
      by (auto simp add: is_set_def js_get_nullish)
    with assms LoginReply Resolved show ?thesis
      by (simp add: op_defs reducer_simps session_invariant_def Let_def)
  next
    case (Rejected x)
    with assms LoginReply show ?thesis
      by (auto simp add: op_defs reducer_simps session_invariant_def Let_def is_set_def)
  qed
next
  case (RestoreReply t r)
  with assms show ?thesis
    by (cases r) (auto simp add: op_defs reducer_simps session_invariant_def Let_def is_set_def)
next
  case (RefreshUserReply r)
  with assms show ?thesis
    by (cases r) (auto simp add: op_defs reducer_simps session_invariant_def Let_def is_set_def)
next
  case (RegisterReply u r)
  with assms show ?thesis
    by (cases r) (auto simp add: op_defs reducer_simps session_invariant_def Let_def is_set_def)
next
  case RestoreCall
  with assms show ?thesis
    by (auto simp add: op_defs reducer_simps session_invariant_def split: option.splits)
qed (use assms in \<open>auto simp add: op_defs reducer_simps session_invariant_def is_set_def\<close>)

lemma run_invariant:
  "list_all contract es \<Longrightarrow> session_invariant (st s) \<Longrightarrow>
   \<exists>s'. run es s = Some s' \<and> session_invariant (st s')"
proof (induction es arbitrary: s)
  case Nil
  then show ?case by simp
next
  case (Cons e es)
  from Cons.prems obtain s1 where s1: "step e s = Some s1" "session_invariant (st s1)"
    using step_invariant [of e s] by auto
  from Cons.IH [of s1] Cons.prems s1 show ?case by simp
qed

text \<open>
  C1, as the code has it. Every execution from the initial state, whatever was stored
  and in whatever order calls and answers fall, runs without an exception, and as long
  as the successful answers carry what the server's contract promises, every state it
  reaches has \<open>token\<close> set iff \<open>isAuthenticated\<close>, and \<open>user\<close> set when \<open>isAuthenticated\<close>.
  What is left out is the converse for \<open>user\<close>.
\<close>

theorem reachable_invariant:
  assumes "list_all contract es"
  shows "\<exists>s. run es (start stored path) = Some s \<and> session_invariant (st s)"
  using assms
  by (rule run_invariant) (simp add: start_def initialState_def session_invariant_def is_set_def)

theorem reachable_invariant_witness:
  "list_all contract
     [RestoreCall, RestoreReply ''abc'' (Resolved (JObj [(''nome'', JStr ''Ana'')])),
      RefreshUserCall, RefreshUserReply (Resolved (JObj [(''nome'', JStr ''Ana Lima'')]))] \<and>
   (\<exists>s. run [RestoreCall, RestoreReply ''abc'' (Resolved (JObj [(''nome'', JStr ''Ana'')])),
              RefreshUserCall, RefreshUserReply (Resolved (JObj [(''nome'', JStr ''Ana Lima'')]))]
             (start (Some ''abc'') ''/dashboard'') = Some s \<and>
        session_invariant (st s))"
  using reachable_invariant
          [of "[RestoreCall, RestoreReply ''abc'' (Resolved (JObj [(''nome'', JStr ''Ana'')])),
                RefreshUserCall,
                RefreshUserReply (Resolved (JObj [(''nome'', JStr ''Ana Lima'')]))]"
              "Some ''abc''" "''/dashboard''"]
  by (simp add: is_set_def)

text \<open>
  C1 as the specification states it fails. A login succeeds; a second login fails for
  want of a connection, which clears \<open>user\<close> and \<open>token\<close> but leaves the stored token
  and the header; \<open>getCurrentUser\<close> then succeeds with that token and puts a user into a
  session that has no token and is not authenticated. Every answer is within the
  contract.
\<close>

theorem user_without_token_counterexample:
  "list_all contract
     [LoginCall (JStr ''a@h.com'') (JStr ''secret123''),
      LoginReply (Resolved (JObj [(''access_token'', JStr ''abc''),
                                  (''user'', JObj [(''nome'', JStr ''Ana'')])])),
      LoginCall (JStr ''a@h.com'') (JStr ''secret123''),
      LoginReply (Rejected None),
      RefreshUserCall,
      RefreshUserReply (Resolved (JObj [(''nome'', JStr ''Ana'')]))] \<and>
   map_option st
     (run [LoginCall (JStr ''a@h.com'') (JStr ''secret123''),
           LoginReply (Resolved (JObj [(''access_token'', JStr ''abc''),
                                       (''user'', JObj [(''nome'', JStr ''Ana'')])])),
           LoginCall (JStr ''a@h.com'') (JStr ''secret123''),
           LoginReply (Rejected None),
           RefreshUserCall,
           RefreshUserReply (Resolved (JObj [(''nome'', JStr ''Ana'')]))]
          (start None ''/login'')) =
     Some \<lparr>user = JObj [(''nome'', JStr ''Ana'')], token = Null, isAuthenticated = False,
           loading = JBool False, error = JStr ''Erro ao fazer login''\<rparr> \<and>
   \<not> claimed_invariant
       \<lparr>user = JObj [(''nome'', JStr ''Ana'')], token = Null, isAuthenticated = False,
        loading = JBool False, error = JStr ''Erro ao fazer login''\<rparr>"
  by (simp add: start_def initialState_def op_defs reducer_simps addResponseInterceptor_def
      addAuthInterceptor_def claimed_invariant_def is_set_def detail_of_def js_or_def Let_def)

section \<open>The checks of the registration form\<close>

lemma trim_empty_iff: "trim s = [] \<longleftrightarrow> list_all js_space s"
proof
  assume "trim s = []"
  then have all: "\<forall>x \<in> set (dropWhile js_space s). js_space x"
    by (simp add: trim_def dropWhile_eq_Nil_conv)
  have "dropWhile js_space s = []"
  proof (cases "dropWhile js_space s")
    case Nil
    then show ?thesis .
  next
    case (Cons a as)
    then have "\<not> js_space a"
      using hd_dropWhile [of js_space s] by simp
    with all Cons show ?thesis by simp
  qed
  then show "list_all js_space s"
    by (simp add: dropWhile_eq_Nil_conv list_all_iff)
next
  assume "list_all js_space s"
  then have d: "dropWhile js_space s = []"
    by (simp add: list_all_iff)
  show "trim s = []"
    unfolding trim_def d by simp
qed

lemma map_of_crm:
  "role f = ''doctor'' \<Longrightarrow> trim (crm f) = [] \<Longrightarrow>
   map_of (form_errors f) ''crm'' = Some (''CRM '' @ obrigatorio @ '' para '' @ medicos)"
  by (simp add: form_errors_def)

lemma map_of_especialidade:
  "role f = ''doctor'' \<Longrightarrow> trim (especialidade f) = [] \<Longrightarrow>
   map_of (form_errors f) ''especialidade'' =
     Some (''Especialidade '' @ obrigatoria @ '' para '' @ medicos)"
  by (simp add: form_errors_def)

lemma map_of_password:
  "length (password f) < 6 \<Longrightarrow>
   map_of (form_errors f) ''password'' =
     Some (if password f = [] then ''Senha '' @ obrigatoria
           else ''Senha deve ter pelo menos 6 caracteres'')"
  by (simp add: form_errors_def)

lemma map_of_confirm_password:
  "password f \<noteq> confirm_password f \<Longrightarrow>
   map_of (form_errors f) ''confirm_password'' =
     Some (if confirm_password f = [] then
             ''Confirma'' @ [CHR 0xE7, CHR 0xE3] @ ''o de senha '' @ obrigatoria
           else ''Senhas n'' @ [CHR 0xE3] @ ''o coincidem'')"
  by (simp add: form_errors_def)

lemma map_of_Some_nonempty: "map_of xs k = Some v \<Longrightarrow> xs \<noteq> []"
  by auto

lemma handleSubmit_invalid:
  "\<not> isSubmitting p \<Longrightarrow> form_errors (formData p) \<noteq> [] \<Longrightarrow>
   handleSubmit r1 r2 (p, s) = Some (p\<lparr>validationErrors := form_errors (formData p)\<rparr>, s)"
  by (simp add: handleSubmit_def validateForm_def Let_def)

lemma handleSubmit_valid:
  "\<not> isSubmitting p \<Longrightarrow> form_errors (formData p) = [] \<Longrightarrow>
   handleSubmit r1 r2 (p, s) =
     map_option (\<lambda>(result, s1). (p\<lparr>validationErrors := [], isSubmitting := False\<rparr>, s1))
       (register (formData_object (formData p)) r1 r2 s)"
  by (cases "register (formData_object (formData p)) r1 r2 s")
     (auto simp add: handleSubmit_def validateForm_def Let_def)

lemma handleSubmit_while_submitting:
  "isSubmitting p \<Longrightarrow> handleSubmit r1 r2 (p, s) = Some (p, s)"
  by (simp add: handleSubmit_def)

text \<open>
  C4, as the code has it. The check of the doctor's fields is in the form, not in
  \<open>register\<close>. A submission of the form (none being already under way) with the role
  \<open>doctor\<close> and a \<open>crm\<close> or an \<open>especialidade\<close> that is empty or all white space stops
  after \<open>validateForm\<close>: the error map of the form holds the message of each such field,
  \<open>register\<close> is not called, no call is sent and the session state is unchanged.
\<close>

theorem doctor_fields_required:
  assumes "\<not> isSubmitting p" and "role (formData p) = ''doctor''"
    and "trim (crm (formData p)) = [] \<or> trim (especialidade (formData p)) = []"
  shows "handleSubmit r1 r2 (p, s) =
           Some (p\<lparr>validationErrors := form_errors (formData p)\<rparr>, s) \<and>
    (trim (crm (formData p)) = [] \<longrightarrow>
       map_of (form_errors (formData p)) ''crm'' =
         Some (''CRM '' @ obrigatorio @ '' para '' @ medicos)) \<and>
    (trim (especialidade (formData p)) = [] \<longrightarrow>
       map_of (form_errors (formData p)) ''especialidade'' =
         Some (''Especialidade '' @ obrigatoria @ '' para '' @ medicos))"
proof -
  from assms(2,3) have "form_errors (formData p) \<noteq> []"
    using map_of_crm [of "formData p"] map_of_especialidade [of "formData p"]
    by (auto dest: map_of_Some_nonempty)
  with assms(1) have "handleSubmit r1 r2 (p, s) =
      Some (p\<lparr>validationErrors := form_errors (formData p)\<rparr>, s)"
    by (rule handleSubmit_invalid)
  with assms(2) show ?thesis
    by (simp add: map_of_crm map_of_especialidade)
qed

theorem doctor_fields_required_witness:
  "\<not> isSubmitting
       \<lparr>formData = \<lparr>nome = ''Ana'', email = ''a@h.com'', password = ''secret123'',
                    confirm_password = ''secret123'', role = ''doctor'', crm = '' '',
                    especialidade = ''Cardiology''\<rparr>,
        isSubmitting = False, validationErrors = []\<rparr> \<and>
   trim '' '' = [] \<and>
   handleSubmit (Resolved Null) (Resolved Null)
     (\<lparr>formData = \<lparr>nome = ''Ana'', email = ''a@h.com'', password = ''secret123'',
                    confirm_password = ''secret123'', role = ''doctor'', crm = '' '',
                    especialidade = ''Cardiology''\<rparr>,
        isSubmitting = False, validationErrors = []\<rparr>,
      start None ''/register'') =
   Some (\<lparr>formData = \<lparr>nome = ''Ana'', email = ''a@h.com'', password = ''secret123'',
                    confirm_password = ''secret123'', role = ''doctor'', crm = '' '',
                    especialidade = ''Cardiology''\<rparr>,
          isSubmitting = False,
          validationErrors = [(''crm'', ''CRM '' @ obrigatorio @ '' para '' @ medicos)]\<rparr>,
         start None ''/register'')"
  using doctor_fields_required
          [of "\<lparr>formData = \<lparr>nome = ''Ana'', email = ''a@h.com'', password = ''secret123'',
                    confirm_password = ''secret123'', role = ''doctor'', crm = '' '',
                    especialidade = ''Cardiology''\<rparr>,
                isSubmitting = False, validationErrors = []\<rparr>"
              "Resolved Null" "Resolved Null" "start None ''/register''"]
  by (simp add: form_errors_def trim_def js_space_def)

text \<open>
  C4 as the specification states it fails: \<open>register\<close> itself checks nothing. Called
  with a doctor whose \<open>crm\<close> is empty, it dispatches \<open>LOGIN_START\<close> and sends the
  registration; here the call finds no server, and what comes back is the message of a
  failed call, not an error map of fields.
\<close>

theorem register_unchecked_counterexample:
  "register
     (formData_object
        \<lparr>nome = ''Ana'', email = ''a@h.com'', password = ''secret123'',
         confirm_password = ''secret123'', role = ''doctor'', crm = [],
         especialidade = ''Cardiology''\<rparr>)
     (Rejected None) (Rejected None) (start None ''/register'') =
   Some (Failure (JStr (''Erro ao cadastrar usu'' @ [CHR 0xE1] @ ''rio'')),
     \<lparr>st = \<lparr>user = Null, token = Null, isAuthenticated = False, loading = JBool False,
              error = JStr (''Erro ao cadastrar usu'' @ [CHR 0xE1] @ ''rio'')\<rparr>,
      hospital_token = None, Authorization = None, pathname = ''/register'', href = [],
      requests =
        [\<lparr>verb = ''POST'', url = ''/auth/register'',
          body = JObj [(''nome'', JStr ''Ana''), (''email'', JStr ''a@h.com''),
                       (''password'', JStr ''secret123''),
                       (''confirm_password'', JStr ''secret123''),
                       (''role'', JStr ''doctor''), (''crm'', JStr []),
                       (''especialidade'', JStr ''Cardiology'')],
          authorization = None\<rparr>]\<rparr>)"
  by (simp add: register_def formData_object_def start_def initialState_def op_defs
      reducer_simps addResponseInterceptor_def addAuthInterceptor_def detail_of_def
      js_or_def Let_def)

text \<open>
  C10. A submission of the form (none being already under way) with a password of fewer
  than 6 characters, or with a confirmation that differs from the password, stops after
  \<open>validateForm\<close>: the error map holds a message for \<open>password\<close> in the first case and
  for \<open>confirm_password\<close> in the second, \<open>register\<close> is not called, no call is sent and
  the session state is unchanged.
\<close>

theorem password_checked:
  assumes "\<not> isSubmitting p"
    and "length (password (formData p)) < 6 \<or>
         password (formData p) \<noteq> confirm_password (formData p)"
  shows "handleSubmit r1 r2 (p, s) =
           Some (p\<lparr>validationErrors := form_errors (formData p)\<rparr>, s) \<and>
    (length (password (formData p)) < 6 \<longrightarrow>
       map_of (form_errors (formData p)) ''password'' =
         Some (if password (formData p) = [] then ''Senha '' @ obrigatoria
               else ''Senha deve ter pelo menos 6 caracteres'')) \<and>
    (password (formData p) \<noteq> confirm_password (formData p) \<longrightarrow>
       map_of (form_errors (formData p)) ''confirm_password'' =
         Some (if confirm_password (formData p) = [] then
                 ''Confirma'' @ [CHR 0xE7, CHR 0xE3] @ ''o de senha '' @ obrigatoria
               else ''Senhas n'' @ [CHR 0xE3] @ ''o coincidem''))"
proof -
  from assms(2) have "form_errors (formData p) \<noteq> []"
    using map_of_password [of "formData p"] map_of_confirm_password [of "formData p"]
    by (auto dest: map_of_Some_nonempty)
  with assms(1) have "handleSubmit r1 r2 (p, s) =
      Some (p\<lparr>validationErrors := form_errors (formData p)\<rparr>, s)"
    by (rule handleSubmit_invalid)
  then show ?thesis
    using map_of_password [of "formData p"] map_of_confirm_password [of "formData p"]
    by simp
qed

theorem password_checked_witness:
  "\<not> isSubmitting
       \<lparr>formData = \<lparr>nome = ''Ana'', email = ''a@h.com'', password = ''abc'',
                    confirm_password = ''abd'', role = ''nurse'', crm = [],
                    especialidade = []\<rparr>,
        isSubmitting = False, validationErrors = []\<rparr> \<and>
   length ''abc'' < 6 \<and> ''abc'' \<noteq> ''abd'' \<and>
   handleSubmit (Resolved Null) (Resolved Null)
     (\<lparr>formData = \<lparr>nome = ''Ana'', email = ''a@h.com'', password = ''abc'',
                    confirm_password = ''abd'', role = ''nurse'', crm = [],
                    especialidade = []\<rparr>,
        isSubmitting = False, validationErrors = []\<rparr>,
      start None ''/register'') =
   Some (\<lparr>formData = \<lparr>nome = ''Ana'', email = ''a@h.com'', password = ''abc'',
                    confirm_password = ''abd'', role = ''nurse'', crm = [],
                    especialidade = []\<rparr>,
          isSubmitting = False,
          validationErrors =
            [(''password'', ''Senha deve ter pelo menos 6 caracteres''),
             (''confirm_password'', ''Senhas n'' @ [CHR 0xE3] @ ''o coincidem'')]\<rparr>,
         start None ''/register'')"
  using password_checked
          [of "\<lparr>formData = \<lparr>nome = ''Ana'', email = ''a@h.com'', password = ''abc'',
                    confirm_password = ''abd'', role = ''nurse'', crm = [],
                    especialidade = []\<rparr>,
                isSubmitting = False, validationErrors = []\<rparr>"
              "Resolved Null" "Resolved Null" "start None ''/register''"]
  by (simp add: form_errors_def trim_def js_space_def)

end
